theory Spec2Isabelle
  imports Main "HOL-Library.Word" "HOL-Library.Signed_Division"
begin

section \<open>The LightStep span recorder (recorder.go)\<close>

text \<open>
  A shallow embedding of \<^verbatim>\<open>recorder.go\<close>: the wire encoding of spans done by
  \<^verbatim>\<open>Flush\<close>, and the recorder's state machine (\<^verbatim>\<open>RecordSpan\<close>, \<^verbatim>\<open>Flush\<close>,
  \<^verbatim>\<open>Disable\<close>, \<^verbatim>\<open>shouldFlush\<close>). Every method runs its critical sections under
  \<^verbatim>\<open>r.lock\<close>, so each locked section is one atomic state transformer. \<^verbatim>\<open>Flush\<close> has
  two locked sections with the report RPC between them; what other goroutines do to the
  recorder while the lock is released is an explicit argument of the model. The loop over
  the commands of the response, which runs after the second section, is run right after
  it. Log output (\<^verbatim>\<open>maybeLogError\<close>, \<^verbatim>\<open>maybeLogInfof\<close>, \<^verbatim>\<open>fmt.Printf\<close>) is not
  modelled, nor is the constructor \<^verbatim>\<open>NewRecorder\<close> (it reads the process arguments and
  the host name and starts the report loop).
\<close>

subsection \<open>Time\<close>

text \<open>
  A \<^verbatim>\<open>time.Time\<close> is its count of nanoseconds since the Unix epoch, a
  \<^verbatim>\<open>time.Duration\<close> a count of nanoseconds. \<^verbatim>\<open>Time.Sub\<close> saturates at the
  smallest and largest \<^verbatim>\<open>Duration\<close> (an int64), as the Go library does;
  \<^verbatim>\<open>UnixNano\<close> returns an int64: computed in int64 arithmetic, it wraps around for
  a time outside the years 1678 to 2262 (the zero \<^verbatim>\<open>Time\<close>, year 1, is such a time).
\<close>

type_synonym Time = int
type_synonym Duration = int

definition Millisecond :: Duration where
  "Millisecond = 1000000"

definition maxDuration :: Duration where
  "maxDuration = 2 ^ 63 - 1"

definition minDuration :: Duration where
  "minDuration = - (2 ^ 63)"

definition Time_Add :: "Time \<Rightarrow> Duration \<Rightarrow> Time" where
  "Time_Add t d = t + d"

definition Time_Sub :: "Time \<Rightarrow> Time \<Rightarrow> Duration" where
  "Time_Sub t u =
     (let d = t - u
      in if d > maxDuration then maxDuration
         else if d < minDuration then minDuration
         else d)"

definition UnixNano :: "Time \<Rightarrow> int" where
  "UnixNano t = sint (word_of_int t :: 64 word)"

text \<open>
  \<^verbatim>\<open>t.UnixNano() / 1000\<close>: Go's integer division truncates toward zero (and cannot
  overflow, the divisor being 1000).
\<close>

definition micros :: "Time \<Rightarrow> int" where
  "micros t = UnixNano t sdiv 1000"

subsection \<open>Constants and flags\<close>

definition defaultMaxReportingPeriod :: Duration where
  "defaultMaxReportingPeriod = 2500 * Millisecond"

definition minReportingPeriod :: Duration where
  "minReportingPeriod = 500 * Millisecond"

definition TraceGUIDKey :: string where
  "TraceGUIDKey = ''join:trace_guid''"

definition ParentSpanGUIDKey :: string where
  "ParentSpanGUIDKey = ''parent_span_guid''"

text \<open>
  The constant \<^verbatim>\<open>ellipsis\<close> is the one character U+2026; a Go string holds its UTF-8
  encoding, the three bytes E2 80 A6, and \<^verbatim>\<open>len\<close> counts bytes.
\<close>

definition ellipsis :: string where
  "ellipsis = [CHR 0xE2, CHR 0x80, CHR 0xA6]"

text \<open>A tag value or a log payload (\<^verbatim>\<open>interface{}\<close>): the printable scalars.\<close>

datatype iface = VString string | VInt int | VBool bool

text \<open>
  The package-level variables: the flag \<^verbatim>\<open>lightstep_max_log_message_len_bytes\<close>
  (an \<^verbatim>\<open>int\<close>, 1024 unless set) and the shared truncator. The truncator package is not
  part of \<^verbatim>\<open>recorder.go\<close>; \<^verbatim>\<open>TruncateToJSON\<close> is taken as a parameter, returning
  the error (\<open>Inl\<close>) or the JSON text (\<open>Inr\<close>).
\<close>

record Globals =
  flagMaxLogMessageLen :: int
  TruncateToJSON :: "iface \<Rightarrow> string + string"

subsection \<open>Library functions\<close>

text \<open>\<^verbatim>\<open>strings.HasPrefix(s, prefix)\<close>: whether \<open>s\<close> begins with \<open>prefix\<close>.\<close>

definition HasPrefix :: "string \<Rightarrow> string \<Rightarrow> bool" where
  "HasPrefix s pfx = (length pfx \<le> length s \<and> take (length pfx) s = pfx)"

text \<open>\<^verbatim>\<open>fmt.Sprint\<close> on integers (decimal), strings and booleans.\<close>

fun decimal :: "nat \<Rightarrow> string" where
  "decimal n =
     (if n < 10 then [''0123456789'' ! n]
      else decimal (n div 10) @ [''0123456789'' ! (n mod 10)])"

declare decimal.simps [simp del]

definition Sprint_int :: "int \<Rightarrow> string" where
  "Sprint_int i = (if i < 0 then CHR ''-'' # decimal (nat (- i)) else decimal (nat i))"

fun Sprint :: "iface \<Rightarrow> string" where
  "Sprint (VString s) = s"
| "Sprint (VInt i) = Sprint_int i"
| "Sprint (VBool b) = (if b then ''true'' else ''false'')"

text \<open>
  The identifiers of a span are int64 (\<^verbatim>\<open>NewTracer\<close> gives the sampling hook the trace
  id as an \<^verbatim>\<open>int64\<close>): \<^verbatim>\<open>fmt.Sprint\<close> prints them as signed decimals.
\<close>

definition Sprint_int64 :: "64 word \<Rightarrow> string" where
  "Sprint_int64 w = Sprint_int (sint w)"

subsection \<open>Spans and wire records\<close>

record LogData =
  Timestamp :: Time
  Event :: string
  Payload :: "iface option"

text \<open>
  \<^verbatim>\<open>Tags\<close> is a Go map: the list holds its entries, with distinct keys, in the order the
  \<^verbatim>\<open>range\<close> loop visits them (any order).
\<close>

record RawSpan =
  TraceID :: "64 word"
  SpanID :: "64 word"
  ParentSpanID :: "64 word"
  Operation :: string
  Start :: Time
  Duration :: Duration
  Tags :: "(string \<times> iface) list"
  Logs :: "LogData list"

datatype TraceJoinId = TraceJoinId (TraceKey: string) (JoinValue: string)

datatype KeyValue = KeyValue (Key: string) (Value: string)

record LogRecord =
  TimestampMicros :: int
  StableName :: string
  PayloadJson :: "string option"

record SpanRecord =
  SpanGuid :: string
  SpanName :: string
  JoinIds :: "TraceJoinId list"
  OldestMicros :: int
  YoungestMicros :: int
  Attributes :: "KeyValue list"
  LogRecords :: "LogRecord list"

datatype panic = SliceBoundsOutOfRange

subsection \<open>Encoding one span (the body of the loop in Flush)\<close>

text \<open>
  The loop over \<^verbatim>\<open>raw.Tags\<close>, with the two slices it appends to. The test is written
  as the source has it: \<^verbatim>\<open>strings.HasPrefix("join:", key)\<close>.
\<close>

fun encodeTags ::
  "(string \<times> iface) list \<Rightarrow> TraceJoinId list \<Rightarrow> KeyValue list
     \<Rightarrow> TraceJoinId list \<times> KeyValue list" where
  "encodeTags [] joinIds attrs = (joinIds, attrs)"
| "encodeTags ((key, val) # rest) joinIds attrs =
     (if HasPrefix ''join:'' key
      then encodeTags rest (joinIds @ [TraceJoinId key (Sprint val)]) attrs
      else encodeTags rest joinIds (attrs @ [KeyValue key (Sprint val)]))"

text \<open>
  The event of a log: \<^verbatim>\<open>log.Event[:(*flagMaxLogMessageLen-1)] + ellipsis\<close> when the
  event is longer than the flag. A slice expression with a negative bound panics.
\<close>

definition encodeEvent :: "int \<Rightarrow> string \<Rightarrow> panic + string" where
  "encodeEvent maxLen ev =
     (if length ev > 0 then
        (if int (length ev) > maxLen then
           (if maxLen - 1 < 0 then Inl SliceBoundsOutOfRange
            else Inr (take (nat (maxLen - 1)) ev @ ellipsis))
         else Inr ev)
      else Inr [])"

definition encodePayload :: "(iface \<Rightarrow> string + string) \<Rightarrow> iface option \<Rightarrow> string option" where
  "encodePayload trunc p =
     (case p of
        None \<Rightarrow> None
      | Some v \<Rightarrow>
          (case trunc v of
             Inl err \<Rightarrow> Some (''Error encoding payload object: '' @ err)
           | Inr jsonString \<Rightarrow> Some jsonString))"

definition encodeLog :: "Globals \<Rightarrow> LogData \<Rightarrow> panic + LogRecord" where
  "encodeLog g l =
     (case encodeEvent (flagMaxLogMessageLen g) (Event l) of
        Inl p \<Rightarrow> Inl p
      | Inr event \<Rightarrow>
          Inr \<lparr>TimestampMicros = micros (Timestamp l),
               StableName = event,
               PayloadJson = encodePayload (TruncateToJSON g) (Payload l)\<rparr>)"

text \<open>A loop that fills a slice element by element and stops at the first panic.\<close>

fun mapE :: "('a \<Rightarrow> panic + 'b) \<Rightarrow> 'a list \<Rightarrow> panic + 'b list" where
  "mapE f [] = Inr []"
| "mapE f (x # xs) =
     (case f x of
        Inl p \<Rightarrow> Inl p
      | Inr y \<Rightarrow> (case mapE f xs of Inl p \<Rightarrow> Inl p | Inr ys \<Rightarrow> Inr (y # ys)))"

definition encodeSpan :: "Globals \<Rightarrow> RawSpan \<Rightarrow> panic + SpanRecord" where
  "encodeSpan g raw =
     (case encodeTags (Tags raw) [] [] of
        (joinIds0, attrs0) \<Rightarrow>
          (case mapE (encodeLog g) (Logs raw) of
             Inl p \<Rightarrow> Inl p
           | Inr logs \<Rightarrow>
               (let joinIds = joinIds0 @ [TraceJoinId TraceGUIDKey (Sprint_int64 (TraceID raw))];
                    attrs = (if ParentSpanID raw \<noteq> 0
                             then attrs0 @ [KeyValue ParentSpanGUIDKey
                                              (Sprint_int64 (ParentSpanID raw))]
                             else attrs0)
                in Inr \<lparr>SpanGuid = Sprint_int64 (SpanID raw),
                        SpanName = Operation raw,
                        JoinIds = joinIds,
                        OldestMicros = micros (Start raw),
                        YoungestMicros = micros (Time_Add (Start raw) (Duration raw)),
                        Attributes = attrs,
                        LogRecords = logs\<rparr>)))"

subsection \<open>The buffer and the counters\<close>

text \<open>
  Modelled from the spec: the type \<^verbatim>\<open>spansBuffer\<close> and its methods are not in
  \<^verbatim>\<open>recorder.go\<close>. The spec (4.1): \<^verbatim>\<open>add(batch)\<close> appends as many records as fit
  under the capacity bound and returns the count that did not fit; \<^verbatim>\<open>snapshot()\<close>
  returns the buffered records without removing them; \<^verbatim>\<open>reset()\<close> clears the buffer;
  \<^verbatim>\<open>len()\<close> and \<^verbatim>\<open>cap()\<close> report size and capacity.
\<close>

record spansBuffer =
  rawSpans :: "RawSpan list"
  maxBufferSize :: nat

definition spansBuffer_len :: "spansBuffer \<Rightarrow> nat" where
  "spansBuffer_len b = length (rawSpans b)"

definition spansBuffer_cap :: "spansBuffer \<Rightarrow> nat" where
  "spansBuffer_cap b = maxBufferSize b"

definition spansBuffer_current :: "spansBuffer \<Rightarrow> RawSpan list" where
  "spansBuffer_current b = rawSpans b"

definition spansBuffer_reset :: "spansBuffer \<Rightarrow> spansBuffer" where
  "spansBuffer_reset b = b\<lparr>rawSpans := []\<rparr>"

text \<open>The room left is \<open>cap - len\<close>, zero when the buffer is full (subtraction on \<open>nat\<close>).\<close>

definition spansBuffer_addSpans :: "spansBuffer \<Rightarrow> RawSpan list \<Rightarrow> spansBuffer \<times> int" where
  "spansBuffer_addSpans b spans =
     (let space = spansBuffer_cap b - spansBuffer_len b
      in (b\<lparr>rawSpans := rawSpans b @ take space spans\<rparr>,
          int (length spans - space)))"

text \<open>
  Modelled from the spec: the type \<^verbatim>\<open>counterSet\<close> is not in \<^verbatim>\<open>recorder.go\<close>, which
  uses its field \<^verbatim>\<open>droppedSpans\<close>, its zero value \<^verbatim>\<open>counterSet{}\<close> and
  \<^verbatim>\<open>toThrift\<close>. The spec (3): a record of counts, at minimum the spans dropped by
  overflow; the report carries a snapshot of it.
\<close>

record counterSet =
  droppedSpans :: int

definition counterSet_zero :: counterSet where
  "counterSet_zero = \<lparr>droppedSpans = 0\<rparr>"

definition counterSet_toThrift :: "counterSet \<Rightarrow> counterSet" where
  "counterSet_toThrift c = c"

subsection \<open>The recorder\<close>

record Runtime =
  StartMicros :: int
  Attrs :: "KeyValue list"

record ReportRequest =
  req_OldestMicros :: int
  req_YoungestMicros :: int
  req_Runtime :: Runtime
  SpanRecords :: "SpanRecord list"
  Counters :: counterSet

record Command =
  cmd_Disable :: "bool option"

record ReportResponse =
  Errors :: "string list"
  Commands :: "Command list"

text \<open>
  The field \<^verbatim>\<open>attributes\<close> is a Go map, held as the list of its entries. The field
  \<^verbatim>\<open>backend\<close> is an argument of \<open>Flush\<close> below.
\<close>

record Recorder =
  auth :: string
  attributes :: "(string \<times> string) list"
  startTime :: Time
  reportOldest :: Time
  reportYoungest :: Time
  buffer :: spansBuffer
  counters :: counterSet
  lastReportAttempt :: Time
  maxReportingPeriod :: Duration
  reportInFlight :: bool
  verbose :: bool
  disabled :: bool

definition addDropped :: "int \<Rightarrow> counterSet \<Rightarrow> counterSet" where
  "addDropped n c = c\<lparr>droppedSpans := droppedSpans c + n\<rparr>"

definition RecordSpan :: "RawSpan \<Rightarrow> Recorder \<Rightarrow> Recorder" where
  "RecordSpan raw r =
     (if disabled r then r
      else (case spansBuffer_addSpans (buffer r) [raw] of
              (b, dropped) \<Rightarrow> r\<lparr>buffer := b, counters := addDropped dropped (counters r)\<rparr>))"

definition Disable :: "Recorder \<Rightarrow> Recorder" where
  "Disable r =
     (if disabled r then r
      else r\<lparr>buffer := spansBuffer_reset (buffer r), disabled := True\<rparr>)"

definition thriftRuntime :: "Recorder \<Rightarrow> Runtime" where
  "thriftRuntime r =
     \<lparr>StartMicros = micros (startTime r),
      Attrs = map (\<lambda>(k, v). KeyValue k v) (attributes r)\<rparr>"

text \<open>\<open>now\<close> is what \<^verbatim>\<open>time.Now()\<close> returns.\<close>

definition shouldFlush :: "Time \<Rightarrow> Recorder \<Rightarrow> bool" where
  "shouldFlush now r =
     (if Time_Sub (Time_Add now minReportingPeriod) (lastReportAttempt r) > maxReportingPeriod r
      then True
      else if spansBuffer_len (buffer r) > spansBuffer_cap (buffer r) div 2
      then True
      else False)"

subsection \<open>Flush\<close>

text \<open>
  What surrounds the recorder: the clock that \<^verbatim>\<open>time.Now()\<close> reads, and the requests
  the backend has been handed, oldest first.
\<close>

record World =
  clock :: Time
  sent :: "ReportRequest list"

text \<open>
  One call of \<^verbatim>\<open>r.backend.Report(r.auth, req)\<close>: the error (\<open>Inl\<close>) or the response
  (\<open>Inr\<close>), and the nanoseconds the call took.
\<close>

record RpcReply =
  outcome :: "string + ReportResponse"
  elapsed :: nat

type_synonym Backend = "string \<Rightarrow> ReportRequest \<Rightarrow> RpcReply"

text \<open>
  What other goroutines do to the recorder while \<open>Flush\<close> waits for the RPC with the
  lock released: calls of \<^verbatim>\<open>RecordSpan\<close> and \<^verbatim>\<open>Disable\<close>, each atomic under the lock.
\<close>

datatype ConcOp = DoRecordSpan RawSpan | DoDisable

fun runOp :: "Recorder \<Rightarrow> ConcOp \<Rightarrow> Recorder" where
  "runOp r (DoRecordSpan raw) = RecordSpan raw r"
| "runOp r DoDisable = Disable r"

definition runOps :: "ConcOp list \<Rightarrow> Recorder \<Rightarrow> Recorder" where
  "runOps ops r = foldl runOp r ops"

text \<open>
  The first locked section: the two early returns, then the stamps, the encoding of the
  buffered spans, the request, the reset of the buffer and the in-flight flag.
\<close>

datatype FlushBegin = Returned | Started Recorder ReportRequest "RawSpan list"

definition Flush_begin :: "Globals \<Rightarrow> Time \<Rightarrow> Recorder \<Rightarrow> panic + FlushBegin" where
  "Flush_begin g now r =
     (if disabled r then Inr Returned
      else if reportInFlight r = True then Inr Returned
      else
        (let r1 = r\<lparr>lastReportAttempt := now, reportYoungest := now\<rparr>;
             spans = spansBuffer_current (buffer r1)
         in case mapE (encodeSpan g) spans of
              Inl p \<Rightarrow> Inl p
            | Inr recs \<Rightarrow>
                (let req = \<lparr>req_OldestMicros = micros (reportOldest r1),
                            req_YoungestMicros = micros (reportYoungest r1),
                            req_Runtime = thriftRuntime r1,
                            SpanRecords = recs,
                            Counters = counterSet_toThrift (counters r1)\<rparr>;
                     r2 = r1\<lparr>buffer := spansBuffer_reset (buffer r1)\<rparr>;
                     r3 = r2\<lparr>reportInFlight := True\<rparr>
                 in Inr (Started r3 req spans))))"

text \<open>The loop over \<^verbatim>\<open>resp.Commands\<close>, run after the lock is released.\<close>

definition runCommand :: "Recorder \<Rightarrow> Command \<Rightarrow> Recorder" where
  "runCommand r c =
     (if cmd_Disable c \<noteq> None \<and> the (cmd_Disable c) then Disable r else r)"

text \<open>
  The second locked section, entered when the RPC has returned, and the command loop.
  \<open>now\<close> is the variable of that name, set in the first section.
\<close>

definition Flush_end ::
  "Time \<Rightarrow> RawSpan list \<Rightarrow> string + ReportResponse \<Rightarrow> Recorder \<Rightarrow> Recorder" where
  "Flush_end now spans res r =
     (let r1 = r\<lparr>reportInFlight := False\<rparr>
      in case res of
           Inl err \<Rightarrow>
             (case spansBuffer_addSpans (buffer r1) spans of
                (b, dropped) \<Rightarrow>
                  r1\<lparr>buffer := b, counters := addDropped dropped (counters r1)\<rparr>)
         | Inr resp \<Rightarrow>
             (let r2 = r1\<lparr>reportOldest := now, reportYoungest := now,
                         counters := counterSet_zero\<rparr>
              in foldl runCommand r2 (Commands resp)))"

definition Flush ::
  "Globals \<Rightarrow> Backend \<Rightarrow> ConcOp list \<Rightarrow> Recorder \<times> World \<Rightarrow> panic + Recorder \<times> World" where
  "Flush g backend during rw =
     (case rw of
        (r, w) \<Rightarrow>
          (let now = clock w
           in case Flush_begin g now r of
                Inl p \<Rightarrow> Inl p
              | Inr Returned \<Rightarrow> Inr (r, w)
              | Inr (Started r1 req spans) \<Rightarrow>
                  (let reply = backend (auth r1) req;
                       w1 = w\<lparr>clock := clock w + int (elapsed reply),
                              sent := sent w @ [req]\<rparr>;
                       r2 = runOps during r1
                   in Inr (Flush_end now spans (outcome reply) r2, w1))))"

subsection \<open>Example values\<close>

text \<open>
  A recorder of capacity two holding the spans A and B, a clock at 5 ms, a backend that
  fails and one that replies with given commands, each call taking 3000 ns. The example
  truncator prints the payload; no example span has a payload.
\<close>

definition exGlobals :: Globals where
  "exGlobals = \<lparr>flagMaxLogMessageLen = 1024, TruncateToJSON = (\<lambda>v. Inr (Sprint v))\<rparr>"

definition spanA :: RawSpan where
  "spanA = \<lparr>TraceID = 7, SpanID = 2, ParentSpanID = 0, Operation = ''A'',
            Start = 1000000, Duration = 2500, Tags = [], Logs = []\<rparr>"

definition spanB :: RawSpan where
  "spanB = \<lparr>TraceID = 7, SpanID = 3, ParentSpanID = 2, Operation = ''B'',
            Start = 1001000, Duration = 1000,
            Tags = [(''component'', VString ''db'')],
            Logs = [\<lparr>Timestamp = 1001500, Event = ''hit'', Payload = None\<rparr>]\<rparr>"

definition spanC :: RawSpan where
  "spanC = \<lparr>TraceID = 8, SpanID = 4, ParentSpanID = 0, Operation = ''C'',
            Start = 6000000, Duration = 10, Tags = [], Logs = []\<rparr>"

definition recA :: SpanRecord where
  "recA = \<lparr>SpanGuid = ''2'', SpanName = ''A'',
           JoinIds = [TraceJoinId ''join:trace_guid'' ''7''],
           OldestMicros = 1000, YoungestMicros = 1002, Attributes = [], LogRecords = []\<rparr>"

definition recB :: SpanRecord where
  "recB = \<lparr>SpanGuid = ''3'', SpanName = ''B'',
           JoinIds = [TraceJoinId ''join:trace_guid'' ''7''],
           OldestMicros = 1001, YoungestMicros = 1002,
           Attributes = [KeyValue ''component'' ''db'', KeyValue ''parent_span_guid'' ''2''],
           LogRecords = [\<lparr>TimestampMicros = 1001, StableName = ''hit'', PayloadJson = None\<rparr>]\<rparr>"

definition exRecorder :: Recorder where
  "exRecorder =
     \<lparr>auth = ''token'', attributes = [(''hostname'', ''h1'')], startTime = 0,
      reportOldest = 0, reportYoungest = 0,
      buffer = \<lparr>rawSpans = [spanA, spanB], maxBufferSize = 2\<rparr>,
      counters = \<lparr>droppedSpans = 0\<rparr>,
      lastReportAttempt = 0, maxReportingPeriod = defaultMaxReportingPeriod,
      reportInFlight = False, verbose = False, disabled = False\<rparr>"

definition exWorld :: World where
  "exWorld = \<lparr>clock = 5000000, sent = []\<rparr>"

definition exRequest :: ReportRequest where
  "exRequest =
     \<lparr>req_OldestMicros = 0, req_YoungestMicros = 5000,
      req_Runtime = \<lparr>StartMicros = 0, Attrs = [KeyValue ''hostname'' ''h1'']\<rparr>,
      SpanRecords = [recA, recB], Counters = \<lparr>droppedSpans = 0\<rparr>\<rparr>"

definition exStarted :: Recorder where
  "exStarted =
     exRecorder\<lparr>lastReportAttempt := 5000000, reportYoungest := 5000000,
                buffer := \<lparr>rawSpans = [], maxBufferSize = 2\<rparr>, reportInFlight := True\<rparr>"

definition failingBackend :: Backend where
  "failingBackend = (\<lambda>a req. \<lparr>outcome = Inl ''connection refused'', elapsed = 3000\<rparr>)"

definition replyingBackend :: "Command list \<Rightarrow> Backend" where
  "replyingBackend cmds =
     (\<lambda>a req. \<lparr>outcome = Inr \<lparr>Errors = [], Commands = cmds\<rparr>, elapsed = 3000\<rparr>)"

section \<open>Properties of the encoding and of the recorder\<close>

subsection \<open>Auxiliary lemmas\<close>

lemma UnixNano_in_range:
  "- (2 ^ 63) \<le> t \<Longrightarrow> t < 2 ^ 63 \<Longrightarrow> UnixNano t = t"
  unfolding UnixNano_def
  by (simp add: signed_of_int signed_take_bit_int_eq_self)

lemma micros_in_range:
  "- (2 ^ 63) \<le> t \<Longrightarrow> t < 2 ^ 63 \<Longrightarrow> micros t = t sdiv 1000"
  by (simp add: micros_def UnixNano_in_range)

lemma UnixNano_wrap: "UnixNano 9223372036854776807 = - 9223372036854774809"
proof -
  have "(word_of_int 9223372036854776807 :: 64 word) = word_of_int (- 9223372036854774809)"
    by simp
  then show ?thesis
    unfolding UnixNano_def
    by (simp add: signed_of_int signed_take_bit_int_eq_self del: of_int_numeral)
qed

lemma micros_wrap: "micros 9223372036854776807 = - 9223372036854774"
  by (simp add: micros_def UnixNano_wrap signed_divide_int_def)

lemma encodeTags_filter:
  "encodeTags tags j a =
     (j @ map (\<lambda>(k, v). TraceJoinId k (Sprint v)) (filter (\<lambda>(k, v). HasPrefix ''join:'' k) tags),
      a @ map (\<lambda>(k, v). KeyValue k (Sprint v)) (filter (\<lambda>(k, v). \<not> HasPrefix ''join:'' k) tags))"
  by (induction tags arbitrary: j a) auto

lemma mapE_total:
  "(\<And>x. x \<in> set xs \<Longrightarrow> \<exists>y. f x = Inr y) \<Longrightarrow> \<exists>ys. mapE f xs = Inr ys"
proof (induction xs)
  case Nil
  show ?case by simp
next
  case (Cons x xs)
  obtain y where y: "f x = Inr y" using Cons.prems [of x] by auto
  obtain ys where ys: "mapE f xs = Inr ys" using Cons by auto
  show ?case by (simp add: y ys)
qed

lemma mapE_Inr_nth:
  "mapE f xs = Inr ys \<Longrightarrow> length ys = length xs \<and> (\<forall>i < length xs. f (xs ! i) = Inr (ys ! i))"
proof (induction xs arbitrary: ys)
  case Nil
  then show ?case by simp
next
  case (Cons x xs)
  then show ?case
    by (auto split: sum.splits simp: nth_Cons split: nat.splits)
qed

lemma encodeEvent_total: "1 \<le> m \<Longrightarrow> \<exists>s. encodeEvent m ev = Inr s"
  by (simp add: encodeEvent_def)

lemma encodeLog_total: "1 \<le> flagMaxLogMessageLen g \<Longrightarrow> \<exists>l'. encodeLog g l = Inr l'"
  using encodeEvent_total [of "flagMaxLogMessageLen g" "Event l"]
  by (auto simp: encodeLog_def)

lemma encodeSpan_total: "1 \<le> flagMaxLogMessageLen g \<Longrightarrow> \<exists>rec. encodeSpan g raw = Inr rec"
proof -
  assume m: "1 \<le> flagMaxLogMessageLen g"
  obtain logs where "mapE (encodeLog g) (Logs raw) = Inr logs"
    using mapE_total [of "Logs raw" "encodeLog g"] encodeLog_total [OF m] by blast
  then show ?thesis
    by (simp add: encodeSpan_def Let_def split: prod.splits)
qed

lemma Flush_begin_Started:
  assumes "Flush_begin g now r = Inr (Started r1 req spans)"
  shows "\<not> disabled r" and "\<not> reportInFlight r" and "spans = rawSpans (buffer r)"
    and "r1 = r\<lparr>lastReportAttempt := now, reportYoungest := now,
                 buffer := spansBuffer_reset (buffer r), reportInFlight := True\<rparr>"
    and "Counters req = counters r"
    and "mapE (encodeSpan g) (rawSpans (buffer r)) = Inr (SpanRecords req)"
  using assms
  by (auto simp: Flush_begin_def Let_def spansBuffer_current_def counterSet_toThrift_def
      split: if_splits sum.splits)

lemma Flush_begin_total:
  assumes "1 \<le> flagMaxLogMessageLen g" and "\<not> disabled r" and "\<not> reportInFlight r"
  shows "\<exists>r1 req. Flush_begin g now r = Inr (Started r1 req (rawSpans (buffer r)))"
proof -
  obtain recs where "mapE (encodeSpan g) (rawSpans (buffer r)) = Inr recs"
    using mapE_total [of "rawSpans (buffer r)" "encodeSpan g"] encodeSpan_total [OF assms(1)]
    by blast
  then show ?thesis using assms(2,3)
    by (simp add: Flush_begin_def Let_def spansBuffer_current_def)
qed


lemma runOp_fields:
  "reportOldest (runOp r x) = reportOldest r"
  "reportYoungest (runOp r x) = reportYoungest r"
  "lastReportAttempt (runOp r x) = lastReportAttempt r"
  "reportInFlight (runOp r x) = reportInFlight r"
  by (cases x; simp add: RecordSpan_def Disable_def split: prod.splits)+

lemma runOps_fields:
  "reportOldest (runOps ops r) = reportOldest r"
  "reportYoungest (runOps ops r) = reportYoungest r"
  "lastReportAttempt (runOps ops r) = lastReportAttempt r"
  "reportInFlight (runOps ops r) = reportInFlight r"
  unfolding runOps_def
  by (induction ops arbitrary: r; simp add: runOp_fields)+

lemma runCommand_fields:
  "reportOldest (runCommand r c) = reportOldest r"
  "reportYoungest (runCommand r c) = reportYoungest r"
  "lastReportAttempt (runCommand r c) = lastReportAttempt r"
  "reportInFlight (runCommand r c) = reportInFlight r"
  "counters (runCommand r c) = counters r"
  by (simp_all add: runCommand_def Disable_def)

lemma runCommands_fields:
  "reportOldest (foldl runCommand r cs) = reportOldest r"
  "reportYoungest (foldl runCommand r cs) = reportYoungest r"
  "lastReportAttempt (foldl runCommand r cs) = lastReportAttempt r"
  "reportInFlight (foldl runCommand r cs) = reportInFlight r"
  "counters (foldl runCommand r cs) = counters r"
  by (induction cs arbitrary: r; simp add: runCommand_fields)+

lemma Disable_disabled: "disabled (Disable r)"
  by (simp add: Disable_def)

lemma Disable_idem: "Disable (Disable r) = Disable r"
  by (simp add: Disable_def)

lemma runCommands_of_disabled: "disabled r \<Longrightarrow> foldl runCommand r cs = r"
  by (induction cs) (simp_all add: runCommand_def Disable_def)

lemma runCommands_disable:
  "\<exists>c \<in> set cs. cmd_Disable c = Some True \<Longrightarrow> foldl runCommand r cs = Disable r"
proof (induction cs arbitrary: r)
  case Nil
  then show ?case by simp
next
  case (Cons c cs)
  show ?case
  proof (cases "cmd_Disable c = Some True")
    case True
    then have "foldl runCommand r (c # cs) = foldl runCommand (Disable r) cs"
      by (simp add: runCommand_def)
    then show ?thesis
      by (simp add: runCommands_of_disabled Disable_disabled)
  next
    case False
    then have "runCommand r c = r"
      by (auto simp: runCommand_def)
    moreover have "\<exists>c \<in> set cs. cmd_Disable c = Some True"
      using Cons.prems False by auto
    ultimately show ?thesis
      using Cons.IH by simp
  qed
qed

lemma runCommands_ignored:
  "\<forall>c \<in> set cs. cmd_Disable c \<noteq> Some True \<Longrightarrow> foldl runCommand r cs = r"
  by (induction cs arbitrary: r) (auto simp: runCommand_def)

lemma Flush_Started:
  assumes "Flush_begin g (clock w) r = Inr (Started r1 req spans)"
  shows "Flush g backend during (r, w) =
           Inr (Flush_end (clock w) spans (outcome (backend (auth r1) req)) (runOps during r1),
                w\<lparr>clock := clock w + int (elapsed (backend (auth r1) req)),
                  sent := sent w @ [req]\<rparr>)"
  using assms by (simp add: Flush_def Let_def)

lemma Flush_Returned:
  assumes "disabled r \<or> reportInFlight r"
  shows "Flush g backend during (r, w) = Inr (r, w)"
  using assms by (auto simp: Flush_def Flush_begin_def Let_def)

lemma addSpans_after_reset:
  "length (rawSpans b) \<le> maxBufferSize b \<Longrightarrow>
   spansBuffer_addSpans (spansBuffer_reset b) (rawSpans b) = (b, 0)"
  by (simp add: spansBuffer_addSpans_def spansBuffer_reset_def spansBuffer_cap_def
      spansBuffer_len_def)

lemma addSpans_dropped_nonneg: "0 \<le> snd (spansBuffer_addSpans b spans)"
  by (simp add: spansBuffer_addSpans_def Let_def)

lemma Flush_end_error:
  "Flush_end now spans (Inl err) r =
     r\<lparr>reportInFlight := False,
       buffer := fst (spansBuffer_addSpans (buffer r) spans),
       counters := addDropped (snd (spansBuffer_addSpans (buffer r) spans)) (counters r)\<rparr>"
  by (simp add: Flush_end_def Let_def split: prod.splits)

lemma Flush_end_success:
  "Flush_end now spans (Inr resp) r =
     foldl runCommand
       (r\<lparr>reportInFlight := False, reportOldest := now, reportYoungest := now,
          counters := counterSet_zero\<rparr>) (Commands resp)"
  by (simp add: Flush_end_def Let_def)

lemma Disable_funpow: "0 < n \<Longrightarrow> (Disable ^^ n) r = Disable r"
proof (induction n)
  case 0
  then show ?case by simp
next
  case (Suc n)
  show ?case
  proof (cases "n = 0")
    case True
    then show ?thesis by simp
  next
    case False
    then have "(Disable ^^ n) r = Disable r" using Suc.IH by simp
    then show ?thesis by (simp add: Disable_idem)
  qed
qed

lemma RecordSpan_disabled: "disabled r \<Longrightarrow> RecordSpan raw r = r"
  by (simp add: RecordSpan_def)

lemma not_HasPrefix_ParentSpanGUIDKey: "\<not> HasPrefix ''join:'' ParentSpanGUIDKey"
  by (simp add: HasPrefix_def ParentSpanGUIDKey_def)

lemma encodeSpan_Inr:
  assumes "encodeSpan g raw = Inr rec"
  shows "OldestMicros rec = micros (Start raw)"
    and "YoungestMicros rec = micros (Time_Add (Start raw) (Duration raw))"
    and "JoinIds rec =
           map (\<lambda>(k, v). TraceJoinId k (Sprint v))
             (filter (\<lambda>(k, v). HasPrefix ''join:'' k) (Tags raw))
           @ [TraceJoinId TraceGUIDKey (Sprint_int64 (TraceID raw))]"
    and "Attributes rec =
           map (\<lambda>(k, v). KeyValue k (Sprint v))
             (filter (\<lambda>(k, v). \<not> HasPrefix ''join:'' k) (Tags raw))
           @ (if ParentSpanID raw \<noteq> 0
              then [KeyValue ParentSpanGUIDKey (Sprint_int64 (ParentSpanID raw))] else [])"
  using assms
  by (auto simp: encodeSpan_def encodeTags_filter Let_def split: sum.splits if_splits)

lemma tag_attribute_keys:
  "Key ` set (map (\<lambda>(k, v). KeyValue k (Sprint v)) (filter (\<lambda>(k, v). \<not> HasPrefix ''join:'' k) tags))
     = {k \<in> fst ` set tags. \<not> HasPrefix ''join:'' k}"
  by (induction tags) auto

lemma decimal_digit: "n < 10 \<Longrightarrow> decimal n = [''0123456789'' ! n]"
  by (simp add: decimal.simps)

lemma encodeSpan_spanA: "encodeSpan g spanA = Inr recA"
  by (simp add: encodeSpan_def spanA_def recA_def Sprint_int64_def Sprint_int_def decimal_digit
      TraceGUIDKey_def micros_in_range Time_Add_def signed_divide_int_def)

lemma encodeSpan_spanB: "encodeSpan exGlobals spanB = Inr recB"
  by (simp add: encodeSpan_def spanB_def recB_def Sprint_int64_def Sprint_int_def decimal_digit
      TraceGUIDKey_def ParentSpanGUIDKey_def micros_in_range Time_Add_def
      signed_divide_int_def HasPrefix_def encodeLog_def encodeEvent_def encodePayload_def
      exGlobals_def)

lemma Flush_begin_ex:
  "Flush_begin exGlobals (clock exWorld) exRecorder = Inr (Started exStarted exRequest [spanA, spanB])"
  by (simp add: Flush_begin_def exRecorder_def exRequest_def exStarted_def exWorld_def
      encodeSpan_spanA encodeSpan_spanB
      spansBuffer_current_def spansBuffer_reset_def counterSet_toThrift_def thriftRuntime_def
      micros_in_range signed_divide_int_def)

lemma Flush_ex_failing:
  "Flush exGlobals failingBackend [] (exRecorder, exWorld) =
     Inr (exRecorder\<lparr>lastReportAttempt := 5000000, reportYoungest := 5000000\<rparr>,
          exWorld\<lparr>clock := 5003000, sent := [exRequest]\<rparr>)"
  unfolding Flush_Started [OF Flush_begin_ex]
  by (simp add: failingBackend_def Flush_end_error runOps_def exStarted_def exRecorder_def
      exWorld_def spansBuffer_addSpans_def spansBuffer_cap_def spansBuffer_len_def addDropped_def)

lemma Flush_ex_ok:
  "Flush exGlobals (replyingBackend []) [] (exRecorder, exWorld) =
     Inr (exRecorder\<lparr>lastReportAttempt := 5000000, reportOldest := 5000000,
                     reportYoungest := 5000000,
                     buffer := \<lparr>rawSpans = [], maxBufferSize = 2\<rparr>\<rparr>,
          exWorld\<lparr>clock := 5003000, sent := [exRequest]\<rparr>)"
  unfolding Flush_Started [OF Flush_begin_ex]
  by (simp add: replyingBackend_def Flush_end_success runOps_def exStarted_def exRecorder_def
      exWorld_def counterSet_zero_def)

lemma runOps_ex:
  "runOps [DoRecordSpan spanC, DoRecordSpan spanC, DoRecordSpan spanC] exStarted =
     exStarted\<lparr>buffer := \<lparr>rawSpans = [spanC, spanC], maxBufferSize = 2\<rparr>,
                counters := \<lparr>droppedSpans = 1\<rparr>\<rparr>"
  by (simp add: runOps_def RecordSpan_def exStarted_def exRecorder_def spansBuffer_addSpans_def
      spansBuffer_cap_def spansBuffer_len_def addDropped_def)

subsection \<open>The claims\<close>

text \<open>
  Claim C1: every tag whose key begins with \<^verbatim>\<open>join:\<close> is emitted as a trace join
  identifier, every other tag as an attribute. The source tests
  \<^verbatim>\<open>strings.HasPrefix("join:", key)\<close>, with the arguments exchanged: it asks whether
  \<^verbatim>\<open>join:\<close> begins with the key. On a span with the tags \<^verbatim>\<open>join:foo\<close> and \<^verbatim>\<open>jo\<close> the
  tag \<^verbatim>\<open>join:foo\<close> is emitted as an attribute and the tag \<^verbatim>\<open>jo\<close> as a join
  identifier.
\<close>

theorem C1_join_tag:
  "encodeSpan exGlobals (spanA\<lparr>Tags := [(''join:foo'', VString ''bar''), (''jo'', VString ''x'')]\<rparr>) =
     Inr (recA\<lparr>JoinIds := [TraceJoinId ''jo'' ''x'', TraceJoinId ''join:trace_guid'' ''7''],
              Attributes := [KeyValue ''join:foo'' ''bar'']\<rparr>)"
  by (simp add: encodeSpan_def spanA_def recA_def Sprint_int64_def Sprint_int_def decimal_digit
      TraceGUIDKey_def micros_in_range Time_Add_def signed_divide_int_def HasPrefix_def)

text \<open>
  Claim C2: an event longer than the configured maximum is truncated to exactly that
  maximum, ellipsis included. With the flag at its default 1024, an event of 1025 bytes is
  emitted as its first 1023 bytes followed by the three bytes of the ellipsis: 1026 bytes,
  two more than the maximum.
\<close>

theorem C2_long_event:
  "encodeLog exGlobals \<lparr>Timestamp = 0, Event = replicate 1025 (CHR ''a''), Payload = None\<rparr> =
     Inr \<lparr>TimestampMicros = 0, StableName = replicate 1023 (CHR ''a'') @ ellipsis,
          PayloadJson = None\<rparr> \<and>
   flagMaxLogMessageLen exGlobals = 1024 \<and>
   length (replicate 1023 (CHR ''a'') @ ellipsis) = 1026"
  by (simp add: encodeLog_def encodeEvent_def encodePayload_def exGlobals_def ellipsis_def
      micros_in_range signed_divide_int_def)

text \<open>
  Claim C3, as stated, fails: after a flush whose RPC returned an error the window's
  youngest timestamp is the time stamped when the flush began, not its value before the
  attempt.
\<close>

theorem C3_counterexample:
  "Flush exGlobals failingBackend [] (exRecorder, exWorld) =
     Inr (exRecorder\<lparr>lastReportAttempt := 5000000, reportYoungest := 5000000\<rparr>,
          exWorld\<lparr>clock := 5003000, sent := [exRequest]\<rparr>) \<and>
   reportYoungest (exRecorder\<lparr>lastReportAttempt := 5000000, reportYoungest := 5000000\<rparr>)
     \<noteq> reportYoungest exRecorder"
  using Flush_ex_failing by (simp add: exRecorder_def)

text \<open>
  Claim C3, amended: when the RPC of a flush returns an error, then after \<open>Flush\<close> the
  drained batch has been added back to the buffer (what does not fit is added to the
  dropped-spans counter), the in-flight flag is cleared and the window's oldest timestamp
  is unchanged; the window's youngest timestamp and \<open>lastReportAttempt\<close> are the time read
  when the flush began. With no concurrent call and a buffer within its capacity, buffer
  and counters are exactly as before the attempt.
\<close>

theorem C3_failed_flush:
  assumes b: "Flush_begin g (clock w) r = Inr (Started r1 req spans)"
    and e: "outcome (backend (auth r1) req) = Inl err"
  shows "\<exists>r' w'. Flush g backend during (r, w) = Inr (r', w') \<and>
           spans = rawSpans (buffer r) \<and>
           buffer r' = fst (spansBuffer_addSpans (buffer (runOps during r1)) spans) \<and>
           counters r' = addDropped (snd (spansBuffer_addSpans (buffer (runOps during r1)) spans))
                           (counters (runOps during r1)) \<and>
           \<not> reportInFlight r' \<and>
           reportOldest r' = reportOldest r \<and>
           reportYoungest r' = clock w \<and>
           lastReportAttempt r' = clock w \<and>
           (during = [] \<and> length (rawSpans (buffer r)) \<le> maxBufferSize (buffer r) \<longrightarrow>
              buffer r' = buffer r \<and> counters r' = counters r)"
proof -
  let ?r2 = "runOps during r1"
  let ?r' = "Flush_end (clock w) spans (Inl err) ?r2"
  have F: "Flush g backend during (r, w) =
      Inr (?r', w\<lparr>clock := clock w + int (elapsed (backend (auth r1) req)), sent := sent w @ [req]\<rparr>)"
    using Flush_Started [OF b, of backend during] e by simp
  have r1: "r1 = r\<lparr>lastReportAttempt := clock w, reportYoungest := clock w,
                   buffer := spansBuffer_reset (buffer r), reportInFlight := True\<rparr>"
    by (rule Flush_begin_Started(4) [OF b])
  have sp: "spans = rawSpans (buffer r)"
    by (rule Flush_begin_Started(3) [OF b])
  have w1: "reportOldest ?r' = reportOldest r"
    by (simp add: Flush_end_error runOps_fields r1)
  have w2: "reportYoungest ?r' = clock w"
    by (simp add: Flush_end_error runOps_fields r1)
  have w3: "lastReportAttempt ?r' = clock w"
    by (simp add: Flush_end_error runOps_fields r1)
  have w4: "\<not> reportInFlight ?r'"
    by (simp add: Flush_end_error)
  have w5: "buffer ?r' = fst (spansBuffer_addSpans (buffer ?r2) spans)"
    by (simp add: Flush_end_error)
  have w6: "counters ?r' = addDropped (snd (spansBuffer_addSpans (buffer ?r2) spans)) (counters ?r2)"
    by (simp add: Flush_end_error)
  have w7: "buffer ?r' = buffer r \<and> counters ?r' = counters r"
    if "during = []" and "length (rawSpans (buffer r)) \<le> maxBufferSize (buffer r)"
    using that addSpans_after_reset [of "buffer r"]
    by (simp add: Flush_end_error runOps_def r1 sp addDropped_def)
  show ?thesis
    using F sp w1 w2 w3 w4 w5 w6 w7 by simp
qed

text \<open>
  The example recorder, with a failing backend and no concurrent call: the two spans are
  back in the buffer and the counters are as before.
\<close>

theorem C3_witness:
  "Flush_begin exGlobals (clock exWorld) exRecorder = Inr (Started exStarted exRequest [spanA, spanB]) \<and>
   outcome (failingBackend (auth exStarted) exRequest) = Inl ''connection refused'' \<and>
   length (rawSpans (buffer exRecorder)) \<le> maxBufferSize (buffer exRecorder) \<and>
   (\<exists>r' w'. Flush exGlobals failingBackend [] (exRecorder, exWorld) = Inr (r', w') \<and>
      buffer r' = buffer exRecorder \<and> counters r' = counters exRecorder \<and>
      \<not> reportInFlight r' \<and> reportOldest r' = reportOldest exRecorder \<and>
      reportYoungest r' = 5000000 \<and> lastReportAttempt r' = 5000000)"
proof -
  have e: "outcome (failingBackend (auth exStarted) exRequest) = Inl ''connection refused''"
    by (simp add: failingBackend_def)
  have l: "length (rawSpans (buffer exRecorder)) \<le> maxBufferSize (buffer exRecorder)"
    by (simp add: exRecorder_def)
  have c: "clock exWorld = 5000000"
    by (simp add: exWorld_def)
  show ?thesis
    using C3_failed_flush [where backend = failingBackend and during = "[]", OF Flush_begin_ex e] Flush_begin_ex e l c
    by auto
qed

text \<open>
  Claim C4, as stated, fails: the window is reset to the time read when the flush began,
  which is earlier than the time at which the flush completed whenever the RPC takes
  time.
\<close>

theorem C4_counterexample:
  "Flush exGlobals (replyingBackend []) [] (exRecorder, exWorld) =
     Inr (exRecorder\<lparr>lastReportAttempt := 5000000, reportOldest := 5000000,
                     reportYoungest := 5000000,
                     buffer := \<lparr>rawSpans = [], maxBufferSize = 2\<rparr>\<rparr>,
          exWorld\<lparr>clock := 5003000, sent := [exRequest]\<rparr>) \<and>
   reportOldest (exRecorder\<lparr>lastReportAttempt := 5000000, reportOldest := 5000000,
                     reportYoungest := 5000000,
                     buffer := \<lparr>rawSpans = [], maxBufferSize = 2\<rparr>\<rparr>)
     \<noteq> clock (exWorld\<lparr>clock := 5003000, sent := [exRequest]\<rparr>)"
  using Flush_ex_ok by simp

text \<open>
  Claim C4, amended: after a flush whose RPC succeeds, the counter set is zero and the
  window's oldest timestamp equals its youngest timestamp equals the time read at the
  start of the flush (the value of \<open>lastReportAttempt\<close>); the flush completes at that time
  plus the duration of the RPC.
\<close>

theorem C4_successful_flush:
  assumes b: "Flush_begin g (clock w) r = Inr (Started r1 req spans)"
    and e: "outcome (backend (auth r1) req) = Inr resp"
  shows "\<exists>r' w'. Flush g backend during (r, w) = Inr (r', w') \<and>
           counters r' = counterSet_zero \<and>
           reportOldest r' = clock w \<and>
           reportYoungest r' = clock w \<and>
           lastReportAttempt r' = clock w \<and>
           clock w' = clock w + int (elapsed (backend (auth r1) req))"
proof -
  let ?r' = "Flush_end (clock w) spans (Inr resp) (runOps during r1)"
  have F: "Flush g backend during (r, w) =
      Inr (?r', w\<lparr>clock := clock w + int (elapsed (backend (auth r1) req)), sent := sent w @ [req]\<rparr>)"
    using Flush_Started [OF b, of backend during] e by simp
  have r1: "r1 = r\<lparr>lastReportAttempt := clock w, reportYoungest := clock w,
                   buffer := spansBuffer_reset (buffer r), reportInFlight := True\<rparr>"
    by (rule Flush_begin_Started(4) [OF b])
  have "counters ?r' = counterSet_zero" "reportOldest ?r' = clock w"
    "reportYoungest ?r' = clock w" "lastReportAttempt ?r' = clock w"
    by (simp_all add: Flush_end_success runCommands_fields runOps_fields r1)
  then show ?thesis using F by simp
qed

text \<open>
  The example recorder, with a backend that replies: the window is reset to the clock at
  entry, 5000000, and the flush completes at 5003000.
\<close>

theorem C4_witness:
  "Flush_begin exGlobals (clock exWorld) exRecorder = Inr (Started exStarted exRequest [spanA, spanB]) \<and>
   outcome (replyingBackend [] (auth exStarted) exRequest) = Inr \<lparr>Errors = [], Commands = []\<rparr> \<and>
   (\<exists>r' w'. Flush exGlobals (replyingBackend []) [] (exRecorder, exWorld) = Inr (r', w') \<and>
      counters r' = counterSet_zero \<and> reportOldest r' = 5000000 \<and> reportYoungest r' = 5000000 \<and>
      lastReportAttempt r' = 5000000 \<and> clock w' = 5003000)"
proof -
  have e: "outcome (replyingBackend [] (auth exStarted) exRequest) = Inr \<lparr>Errors = [], Commands = []\<rparr>"
    by (simp add: replyingBackend_def)
  have c: "clock exWorld = 5000000" "elapsed (replyingBackend [] (auth exStarted) exRequest) = 3000"
    by (simp_all add: exWorld_def replyingBackend_def)
  show ?thesis
    using C4_successful_flush [where backend = "replyingBackend []" and during = "[]", OF Flush_begin_ex e] Flush_begin_ex e c
    by auto
qed

text \<open>
  Claim C5, as stated, fails: a recorder that is disabled while a flush waits for its RPC
  gets the drained batch back when the RPC fails. It is then disabled with two spans in
  its buffer, and \<open>Disable\<close> called on it returns at once: the buffer is not cleared.
\<close>

theorem C5_counterexample:
  "Flush exGlobals failingBackend [DoDisable] (exRecorder, exWorld) =
     Inr (exRecorder\<lparr>lastReportAttempt := 5000000, reportYoungest := 5000000,
                     disabled := True\<rparr>,
          exWorld\<lparr>clock := 5003000, sent := [exRequest]\<rparr>) \<and>
   Disable (exRecorder\<lparr>lastReportAttempt := 5000000, reportYoungest := 5000000,
                        disabled := True\<rparr>) =
     exRecorder\<lparr>lastReportAttempt := 5000000, reportYoungest := 5000000, disabled := True\<rparr> \<and>
   rawSpans (buffer (Disable (exRecorder\<lparr>lastReportAttempt := 5000000,
                                          reportYoungest := 5000000, disabled := True\<rparr>))) =
     [spanA, spanB]"
  unfolding Flush_Started [OF Flush_begin_ex]
  by (simp add: failingBackend_def Flush_end_error runOps_def Disable_def exStarted_def
      exRecorder_def exWorld_def spansBuffer_addSpans_def spansBuffer_cap_def spansBuffer_len_def
      spansBuffer_reset_def addDropped_def)

text \<open>
  Claim C5, amended: \<open>Disable\<close> is idempotent and one-directional. Calling it any
  positive number of times gives the state of calling it once; that state is disabled.
  The call clears the buffer when the recorder was not disabled before, and changes
  nothing on a recorder that is disabled already. On a disabled recorder \<open>RecordSpan\<close>
  changes nothing, and \<open>Flush\<close> returns with the recorder and the world (the requests
  sent) unchanged.
\<close>

theorem C5_Disable:
  "(0 < n \<longrightarrow> (Disable ^^ n) r = Disable r) \<and>
   disabled (Disable r) \<and>
   (\<not> disabled r \<longrightarrow> rawSpans (buffer (Disable r)) = []) \<and>
   RecordSpan raw (Disable r) = Disable r \<and>
   Flush g backend during (Disable r, w) = Inr (Disable r, w) \<and>
   (disabled r \<longrightarrow>
      Disable r = r \<and> RecordSpan raw r = r \<and> Flush g backend during (r, w) = Inr (r, w))"
proof -
  have d: "disabled (Disable r)" by (rule Disable_disabled)
  have "\<not> disabled r \<longrightarrow> rawSpans (buffer (Disable r)) = []"
    by (simp add: Disable_def spansBuffer_reset_def)
  moreover have "disabled r \<longrightarrow> Disable r = r"
    by (simp add: Disable_def)
  ultimately show ?thesis
    using d Disable_funpow [of n r] RecordSpan_disabled [of _ raw]
      Flush_Returned [of _ g backend during w]
    by blast
qed

text \<open>
  Three calls of \<open>Disable\<close> on the example recorder, which is enabled and holds two spans,
  and the operations on the disabled recorder.
\<close>

theorem C5_witness:
  "0 < (3::nat) \<and> (Disable ^^ 3) exRecorder = Disable exRecorder \<and>
   \<not> disabled exRecorder \<and> rawSpans (buffer exRecorder) = [spanA, spanB] \<and>
   rawSpans (buffer (Disable exRecorder)) = [] \<and>
   disabled (Disable exRecorder) \<and>
   Disable (Disable exRecorder) = Disable exRecorder \<and>
   RecordSpan spanC (Disable exRecorder) = Disable exRecorder \<and>
   Flush exGlobals (replyingBackend []) [] (Disable exRecorder, exWorld)
     = Inr (Disable exRecorder, exWorld)"
proof -
  have a: "\<not> disabled exRecorder" "rawSpans (buffer exRecorder) = [spanA, spanB]"
    by (simp_all add: exRecorder_def)
  show ?thesis
    using a C5_Disable [of 3 exRecorder spanC exGlobals "replyingBackend []" "[]" exWorld]
      C5_Disable [of 3 "Disable exRecorder" spanC exGlobals "replyingBackend []" "[]" exWorld]
    by simp
qed

text \<open>
  Claim C6: a \<open>Flush\<close> entered while the in-flight flag is set returns with recorder
  and world unchanged (no drain, no stamp, no request). A flush that reaches the RPC
  found the flag clear; the state it releases the lock with is the entry state stamped,
  drained and with the flag set, and the backend is called once, with the request built
  there. The flag stays set while other goroutines record spans or disable the recorder,
  and a flush entered at any point of that window does nothing. The state \<open>Flush\<close>
  returns is the state reached in that window, flag set, after the second locked section:
  on the error path with the flag cleared and the batch put back, on the success path
  with the flag cleared, window and counters reset, and the commands run; on both the
  flag is clear.
\<close>

theorem C6_in_flight:
  "(reportInFlight r \<longrightarrow> Flush g backend during (r, w) = Inr (r, w)) \<and>
   (Flush_begin g (clock w) r = Inr (Started r1 req spans) \<longrightarrow>
      \<not> reportInFlight r \<and> reportInFlight r1 \<and>
      r1 = r\<lparr>lastReportAttempt := clock w, reportYoungest := clock w,
              buffer := spansBuffer_reset (buffer r), reportInFlight := True\<rparr> \<and>
      reportInFlight (runOps during r1) \<and>
      reportInFlight (runOps (take k during) r1) \<and>
      Flush g2 backend2 during2 (runOps (take k during) r1, w2)
        = Inr (runOps (take k during) r1, w2) \<and>
      Flush g2 backend2 during2 (runOps during r1, w2) = Inr (runOps during r1, w2) \<and>
      (\<exists>r' w'. Flush g backend during (r, w) = Inr (r', w') \<and>
         sent w' = sent w @ [req] \<and> \<not> reportInFlight r' \<and>
         r' = Flush_end (clock w) spans (outcome (backend (auth r1) req)) (runOps during r1) \<and>
         (outcome (backend (auth r1) req) = Inl err \<longrightarrow>
            r' = (runOps during r1)
                   \<lparr>reportInFlight := False,
                    buffer := fst (spansBuffer_addSpans (buffer (runOps during r1)) spans),
                    counters := addDropped
                       (snd (spansBuffer_addSpans (buffer (runOps during r1)) spans))
                       (counters (runOps during r1))\<rparr>) \<and>
         (outcome (backend (auth r1) req) = Inr resp \<longrightarrow>
            r' = foldl runCommand
                   ((runOps during r1)
                      \<lparr>reportInFlight := False, reportOldest := clock w,
                       reportYoungest := clock w, counters := counterSet_zero\<rparr>)
                   (Commands resp))))"
proof -
  have a: "reportInFlight r \<longrightarrow> Flush g backend during (r, w) = Inr (r, w)"
    using Flush_Returned [of r g backend during w] by simp
  have c: "\<not> reportInFlight r \<and> reportInFlight r1 \<and>
      r1 = r\<lparr>lastReportAttempt := clock w, reportYoungest := clock w,
              buffer := spansBuffer_reset (buffer r), reportInFlight := True\<rparr> \<and>
      reportInFlight (runOps during r1) \<and>
      reportInFlight (runOps (take k during) r1) \<and>
      Flush g2 backend2 during2 (runOps (take k during) r1, w2)
        = Inr (runOps (take k during) r1, w2) \<and>
      Flush g2 backend2 during2 (runOps during r1, w2) = Inr (runOps during r1, w2) \<and>
      (\<exists>r' w'. Flush g backend during (r, w) = Inr (r', w') \<and>
         sent w' = sent w @ [req] \<and> \<not> reportInFlight r' \<and>
         r' = Flush_end (clock w) spans (outcome (backend (auth r1) req)) (runOps during r1) \<and>
         (outcome (backend (auth r1) req) = Inl err \<longrightarrow>
            r' = (runOps during r1)
                   \<lparr>reportInFlight := False,
                    buffer := fst (spansBuffer_addSpans (buffer (runOps during r1)) spans),
                    counters := addDropped
                       (snd (spansBuffer_addSpans (buffer (runOps during r1)) spans))
                       (counters (runOps during r1))\<rparr>) \<and>
         (outcome (backend (auth r1) req) = Inr resp \<longrightarrow>
            r' = foldl runCommand
                   ((runOps during r1)
                      \<lparr>reportInFlight := False, reportOldest := clock w,
                       reportYoungest := clock w, counters := counterSet_zero\<rparr>)
                   (Commands resp)))"
    if b: "Flush_begin g (clock w) r = Inr (Started r1 req spans)"
  proof -
    let ?r2 = "runOps during r1"
    let ?res = "outcome (backend (auth r1) req)"
    let ?r' = "Flush_end (clock w) spans ?res ?r2"
    have n: "\<not> reportInFlight r"
      by (rule Flush_begin_Started(2) [OF b])
    have q: "r1 = r\<lparr>lastReportAttempt := clock w, reportYoungest := clock w,
              buffer := spansBuffer_reset (buffer r), reportInFlight := True\<rparr>"
      by (rule Flush_begin_Started(4) [OF b])
    have r1: "reportInFlight r1"
      using q by simp
    have r2: "reportInFlight (runOps ops r1)" for ops
      using r1 by (simp add: runOps_fields)
    have f2: "Flush g2 backend2 during2 (runOps ops r1, w2) = Inr (runOps ops r1, w2)" for ops
      using Flush_Returned [of "runOps ops r1" g2 backend2 during2 w2] r2 [of ops] by simp
    have F: "Flush g backend during (r, w) =
        Inr (?r', w\<lparr>clock := clock w + int (elapsed (backend (auth r1) req)),
                    sent := sent w @ [req]\<rparr>)"
      by (rule Flush_Started [OF b])
    have e: "\<not> reportInFlight ?r'"
      by (cases ?res) (simp_all add: Flush_end_error Flush_end_success runCommands_fields)
    have pe: "?res = Inl err \<longrightarrow>
        ?r' = ?r2\<lparr>reportInFlight := False,
                  buffer := fst (spansBuffer_addSpans (buffer ?r2) spans),
                  counters := addDropped (snd (spansBuffer_addSpans (buffer ?r2) spans))
                                (counters ?r2)\<rparr>"
      by (simp add: Flush_end_error)
    have ps: "?res = Inr resp \<longrightarrow>
        ?r' = foldl runCommand
                (?r2\<lparr>reportInFlight := False, reportOldest := clock w,
                      reportYoungest := clock w, counters := counterSet_zero\<rparr>)
                (Commands resp)"
      by (simp add: Flush_end_success)
    have ex: "\<exists>r' w'. Flush g backend during (r, w) = Inr (r', w') \<and>
         sent w' = sent w @ [req] \<and> \<not> reportInFlight r' \<and>
         r' = ?r' \<and>
         (?res = Inl err \<longrightarrow>
            r' = ?r2\<lparr>reportInFlight := False,
                  buffer := fst (spansBuffer_addSpans (buffer ?r2) spans),
                  counters := addDropped (snd (spansBuffer_addSpans (buffer ?r2) spans))
                                (counters ?r2)\<rparr>) \<and>
         (?res = Inr resp \<longrightarrow>
            r' = foldl runCommand
                (?r2\<lparr>reportInFlight := False, reportOldest := clock w,
                      reportYoungest := clock w, counters := counterSet_zero\<rparr>)
                (Commands resp))"
      using F e pe ps by simp
    show ?thesis
      by (intro conjI) (rule n r1 q r2 f2 ex)+
  qed
  show ?thesis using a c by blast
qed

text \<open>
  The example recorder before and after the first locked section, with a span recorded
  while the RPC is outstanding: the state handed to the second section has the flag set,
  and the state returned has it clear, after a failing RPC and after a successful one.
\<close>

theorem C6_witness:
  "reportInFlight exStarted \<and>
   Flush exGlobals failingBackend [] (exStarted, exWorld) = Inr (exStarted, exWorld) \<and>
   Flush_begin exGlobals (clock exWorld) exRecorder = Inr (Started exStarted exRequest [spanA, spanB]) \<and>
   \<not> reportInFlight exRecorder \<and>
   reportInFlight (runOps [DoRecordSpan spanC] exStarted) \<and>
   Flush exGlobals failingBackend [] (runOps [DoRecordSpan spanC] exStarted, exWorld)
     = Inr (runOps [DoRecordSpan spanC] exStarted, exWorld) \<and>
   outcome (failingBackend (auth exStarted) exRequest) = Inl ''connection refused'' \<and>
   outcome (replyingBackend [] (auth exStarted) exRequest) = Inr \<lparr>Errors = [], Commands = []\<rparr> \<and>
   Flush exGlobals failingBackend [DoRecordSpan spanC] (exRecorder, exWorld) =
     Inr (exStarted\<lparr>buffer := \<lparr>rawSpans = [spanC, spanA], maxBufferSize = 2\<rparr>,
                    counters := \<lparr>droppedSpans = 1\<rparr>, reportInFlight := False\<rparr>,
          exWorld\<lparr>clock := 5003000, sent := [exRequest]\<rparr>) \<and>
   Flush exGlobals (replyingBackend []) [DoRecordSpan spanC] (exRecorder, exWorld) =
     Inr (exStarted\<lparr>buffer := \<lparr>rawSpans = [spanC], maxBufferSize = 2\<rparr>,
                    reportOldest := 5000000, reportInFlight := False\<rparr>,
          exWorld\<lparr>clock := 5003000, sent := [exRequest]\<rparr>)"
proof -
  let ?ops = "[DoRecordSpan spanC]"
  have a: "reportInFlight exStarted"
    by (simp add: exStarted_def)
  have e1: "outcome (failingBackend (auth exStarted) exRequest) = Inl ''connection refused''"
    by (simp add: failingBackend_def)
  have e2: "outcome (replyingBackend [] (auth exStarted) exRequest) = Inr \<lparr>Errors = [], Commands = []\<rparr>"
    by (simp add: replyingBackend_def)
  have ops: "runOps ?ops exStarted =
      exStarted\<lparr>buffer := \<lparr>rawSpans = [spanC], maxBufferSize = 2\<rparr>\<rparr>"
    by (simp add: runOps_def RecordSpan_def exStarted_def exRecorder_def spansBuffer_addSpans_def
        spansBuffer_cap_def spansBuffer_len_def addDropped_def)
  have add: "spansBuffer_addSpans \<lparr>rawSpans = [spanC], maxBufferSize = 2\<rparr> [spanA, spanB] =
      (\<lparr>rawSpans = [spanC, spanA], maxBufferSize = 2\<rparr>, 1)"
    by (simp add: spansBuffer_addSpans_def spansBuffer_cap_def spansBuffer_len_def)
  have w: "Flush exGlobals failingBackend ?ops (exRecorder, exWorld) =
      Inr (Flush_end (clock exWorld) [spanA, spanB] (outcome (failingBackend (auth exStarted) exRequest))
             (runOps ?ops exStarted),
           exWorld\<lparr>clock := 5003000, sent := [exRequest]\<rparr>)"
    "Flush exGlobals (replyingBackend []) ?ops (exRecorder, exWorld) =
      Inr (Flush_end (clock exWorld) [spanA, spanB] (outcome (replyingBackend [] (auth exStarted) exRequest))
             (runOps ?ops exStarted),
           exWorld\<lparr>clock := 5003000, sent := [exRequest]\<rparr>)"
    unfolding Flush_Started [OF Flush_begin_ex]
    by (simp_all add: exWorld_def failingBackend_def replyingBackend_def)
  have c: "clock exWorld = 5000000"
    by (simp add: exWorld_def)
  note T0 = C6_in_flight [of exStarted exGlobals failingBackend "[]" exWorld]
  note T1 = C6_in_flight [where r = exRecorder and g = exGlobals and backend = failingBackend
      and during = ?ops and w = exWorld and ?r1.0 = exStarted and req = exRequest
      and spans = "[spanA, spanB]" and k = 1 and ?g2.0 = exGlobals and ?backend2.0 = failingBackend
      and ?during2.0 = "[]" and ?w2.0 = exWorld and err = "''connection refused''"]
  note T2 = C6_in_flight [where r = exRecorder and g = exGlobals and backend = "replyingBackend []"
      and during = ?ops and w = exWorld and ?r1.0 = exStarted and req = exRequest
      and spans = "[spanA, spanB]" and k = 1 and ?g2.0 = exGlobals and ?backend2.0 = failingBackend
      and ?during2.0 = "[]" and ?w2.0 = exWorld and resp = "\<lparr>Errors = [], Commands = []\<rparr>"]
  let ?r2 = "runOps ?ops exStarted"
  let ?e = "?r2\<lparr>reportInFlight := False,
               buffer := fst (spansBuffer_addSpans (buffer ?r2) [spanA, spanB]),
               counters := addDropped (snd (spansBuffer_addSpans (buffer ?r2) [spanA, spanB]))
                             (counters ?r2)\<rparr>"
  let ?s = "foldl runCommand
              (?r2\<lparr>reportInFlight := False, reportOldest := clock exWorld,
                    reportYoungest := clock exWorld, counters := counterSet_zero\<rparr>)
              (Commands \<lparr>Errors = [], Commands = []\<rparr>)"
  have x1: "\<exists>r' w'. Flush exGlobals failingBackend ?ops (exRecorder, exWorld) = Inr (r', w') \<and>
      r' = ?e"
    using T1 Flush_begin_ex e1 by blast
  have x2: "\<exists>r' w'. Flush exGlobals (replyingBackend []) ?ops (exRecorder, exWorld) = Inr (r', w') \<and>
      r' = ?s"
    using T2 Flush_begin_ex e2 by blast
  have v1: "?e = exStarted\<lparr>buffer := \<lparr>rawSpans = [spanC, spanA], maxBufferSize = 2\<rparr>,
                    counters := \<lparr>droppedSpans = 1\<rparr>, reportInFlight := False\<rparr>"
    unfolding ops by (simp add: add addDropped_def exStarted_def exRecorder_def)
  have v2: "?s = exStarted\<lparr>buffer := \<lparr>rawSpans = [spanC], maxBufferSize = 2\<rparr>,
                    reportOldest := 5000000, reportInFlight := False\<rparr>"
    unfolding ops by (simp add: c counterSet_zero_def exStarted_def exRecorder_def)
  have p1: "Flush exGlobals failingBackend ?ops (exRecorder, exWorld) =
     Inr (exStarted\<lparr>buffer := \<lparr>rawSpans = [spanC, spanA], maxBufferSize = 2\<rparr>,
                    counters := \<lparr>droppedSpans = 1\<rparr>, reportInFlight := False\<rparr>,
          exWorld\<lparr>clock := 5003000, sent := [exRequest]\<rparr>)"
  proof -
    obtain r' w' where f: "Flush exGlobals failingBackend ?ops (exRecorder, exWorld) = Inr (r', w')"
      and r: "r' = ?e"
      using x1 by blast
    have "w' = exWorld\<lparr>clock := 5003000, sent := [exRequest]\<rparr>"
      using f w(1) by simp
    then show ?thesis
      using f r v1 by simp
  qed
  have p2: "Flush exGlobals (replyingBackend []) ?ops (exRecorder, exWorld) =
     Inr (exStarted\<lparr>buffer := \<lparr>rawSpans = [spanC], maxBufferSize = 2\<rparr>,
                    reportOldest := 5000000, reportInFlight := False\<rparr>,
          exWorld\<lparr>clock := 5003000, sent := [exRequest]\<rparr>)"
  proof -
    obtain r' w' where f: "Flush exGlobals (replyingBackend []) ?ops (exRecorder, exWorld) = Inr (r', w')"
      and r: "r' = ?s"
      using x2 by blast
    have "w' = exWorld\<lparr>clock := 5003000, sent := [exRequest]\<rparr>"
      using f w(2) by simp
    then show ?thesis
      using f r v2 by simp
  qed
  have t: "\<not> reportInFlight exRecorder \<and> reportInFlight (runOps ?ops exStarted) \<and>
      Flush exGlobals failingBackend [] (runOps ?ops exStarted, exWorld)
        = Inr (runOps ?ops exStarted, exWorld)"
    using T1 Flush_begin_ex by blast
  show ?thesis
    using a T0 Flush_begin_ex e1 e2 p1 p2 t by blast
qed

text \<open>
  Claim C7: \<open>shouldFlush\<close> holds exactly when the current time plus
  \<open>minReportingPeriod\<close> minus \<open>lastReportAttempt\<close> exceeds \<open>maxReportingPeriod\<close>, or the
  number of buffered spans is strictly more than half the capacity. \<open>maxReportingPeriod\<close>
  is a \<^verbatim>\<open>Duration\<close> below the largest one, at which \<^verbatim>\<open>Time.Sub\<close> saturates (the
  recorder is built with 2500 ms).
\<close>

theorem C7_shouldFlush:
  assumes "minDuration \<le> maxReportingPeriod r" and "maxReportingPeriod r < maxDuration"
  shows "shouldFlush now r \<longleftrightarrow>
           (now + minReportingPeriod - lastReportAttempt r > maxReportingPeriod r \<or>
            2 * spansBuffer_len (buffer r) > spansBuffer_cap (buffer r))"
proof -
  have t: "Time_Sub (Time_Add now minReportingPeriod) (lastReportAttempt r) > maxReportingPeriod r
        \<longleftrightarrow> now + minReportingPeriod - lastReportAttempt r > maxReportingPeriod r"
    using assms by (auto simp: Time_Sub_def Time_Add_def Let_def)
  have h: "spansBuffer_len (buffer r) > spansBuffer_cap (buffer r) div 2
        \<longleftrightarrow> 2 * spansBuffer_len (buffer r) > spansBuffer_cap (buffer r)"
    by presburger
  show ?thesis
    unfolding shouldFlush_def using t h by simp
qed

text \<open>
  The example recorder at 5 ms: the reporting period has not expired, the buffer is more
  than half full, and \<open>shouldFlush\<close> holds.
\<close>

theorem C7_witness:
  "minDuration \<le> maxReportingPeriod exRecorder \<and> maxReportingPeriod exRecorder < maxDuration \<and>
   maxReportingPeriod exRecorder = 2500000000 \<and>
   shouldFlush 5000000 exRecorder \<and>
   \<not> 5000000 + minReportingPeriod - lastReportAttempt exRecorder > maxReportingPeriod exRecorder \<and>
   2 * spansBuffer_len (buffer exRecorder) > spansBuffer_cap (buffer exRecorder)"
proof -
  have a: "minDuration \<le> maxReportingPeriod exRecorder" "maxReportingPeriod exRecorder < maxDuration"
    by (simp_all add: exRecorder_def defaultMaxReportingPeriod_def Millisecond_def
        minDuration_def maxDuration_def)
  have b: "maxReportingPeriod exRecorder = 2500000000"
    "\<not> 5000000 + minReportingPeriod - lastReportAttempt exRecorder > maxReportingPeriod exRecorder"
    "2 * spansBuffer_len (buffer exRecorder) > spansBuffer_cap (buffer exRecorder)"
    by (simp_all add: exRecorder_def defaultMaxReportingPeriod_def minReportingPeriod_def
        Millisecond_def spansBuffer_len_def spansBuffer_cap_def)
  show ?thesis
    using a b C7_shouldFlush [OF a, of 5000000] by simp
qed

text \<open>
  Claim C8, as stated, fails. Tags are copied to the attributes under their own keys, so
  a span with no parent and a tag named \<^verbatim>\<open>parent_span_guid\<close> is encoded with an
  attribute of that key. And \<^verbatim>\<open>UnixNano\<close> is an int64: for a span that starts at the
  last nanosecond an int64 holds and lasts 1000 ns, start plus duration is
  9223372036854776 microseconds, while \<open>YoungestMicros\<close> is negative.
\<close>

theorem C8_counterexample:
  "encodeSpan exGlobals
     (spanA\<lparr>Start := 9223372036854775807, Duration := 1000,
             Tags := [(''parent_span_guid'', VString ''9'')]\<rparr>) =
     Inr (recA\<lparr>OldestMicros := 9223372036854775, YoungestMicros := - 9223372036854774,
              Attributes := [KeyValue ''parent_span_guid'' ''9'']\<rparr>) \<and>
   (9223372036854775807 + 1000) sdiv 1000 = (9223372036854776 :: int) \<and>
   Key (KeyValue ''parent_span_guid'' ''9'') = ParentSpanGUIDKey \<and>
   ParentSpanID (spanA\<lparr>Start := 9223372036854775807, Duration := 1000,
                        Tags := [(''parent_span_guid'', VString ''9'')]\<rparr>) = 0"
  by (simp add: encodeSpan_def spanA_def recA_def Sprint_int64_def Sprint_int_def decimal_digit
      TraceGUIDKey_def ParentSpanGUIDKey_def micros_in_range micros_wrap
      Time_Add_def signed_divide_int_def HasPrefix_def)

text \<open>
  Claim C8, amended: for the record at any position of the request built by \<open>Flush\<close>,
  \<open>OldestMicros\<close> is the \<^verbatim>\<open>UnixNano\<close> reading of the start of the span, an int64,
  divided by 1000 toward zero: the start in microseconds whenever the start, in
  nanoseconds since the epoch, fits an int64. \<open>YoungestMicros\<close> is the same of start plus
  duration. The last join identifier is the trace GUID with the trace id of the span,
  and the encoder appends one parent-span attribute, after the attributes of the tags,
  exactly when the parent span id is not zero; when no tag of the span has the key
  \<^verbatim>\<open>parent_span_guid\<close>, an attribute with that key is present if and only if the parent
  span id is not zero.
\<close>

theorem C8_span_record:
  assumes b: "Flush_begin g now r = Inr (Started r1 req spans)"
    and i: "i < length spans"
  shows "length (SpanRecords req) = length spans \<and>
         OldestMicros (SpanRecords req ! i) =
           sint (word_of_int (Start (spans ! i)) :: 64 word) sdiv 1000 \<and>
         YoungestMicros (SpanRecords req ! i) =
           sint (word_of_int (Start (spans ! i) + Duration (spans ! i)) :: 64 word) sdiv 1000 \<and>
         (- (2 ^ 63) \<le> Start (spans ! i) \<and> Start (spans ! i) < 2 ^ 63 \<longrightarrow>
            OldestMicros (SpanRecords req ! i) = Start (spans ! i) sdiv 1000) \<and>
         (- (2 ^ 63) \<le> Start (spans ! i) + Duration (spans ! i) \<and>
          Start (spans ! i) + Duration (spans ! i) < 2 ^ 63 \<longrightarrow>
            YoungestMicros (SpanRecords req ! i) =
              (Start (spans ! i) + Duration (spans ! i)) sdiv 1000) \<and>
         JoinIds (SpanRecords req ! i) \<noteq> [] \<and>
         last (JoinIds (SpanRecords req ! i)) =
           TraceJoinId TraceGUIDKey (Sprint_int64 (TraceID (spans ! i))) \<and>
         (ParentSpanID (spans ! i) \<noteq> 0 \<longrightarrow>
            Attributes (SpanRecords req ! i) \<noteq> [] \<and>
            last (Attributes (SpanRecords req ! i)) =
              KeyValue ParentSpanGUIDKey (Sprint_int64 (ParentSpanID (spans ! i)))) \<and>
         length (filter (\<lambda>a. Key a = ParentSpanGUIDKey) (Attributes (SpanRecords req ! i))) =
           length (filter (\<lambda>(k, v). k = ParentSpanGUIDKey) (Tags (spans ! i)))
           + (if ParentSpanID (spans ! i) \<noteq> 0 then 1 else 0) \<and>
         (ParentSpanGUIDKey \<notin> fst ` set (Tags (spans ! i)) \<longrightarrow>
            ((\<exists>a \<in> set (Attributes (SpanRecords req ! i)). Key a = ParentSpanGUIDKey)
               \<longleftrightarrow> ParentSpanID (spans ! i) \<noteq> 0))"
proof -
  let ?raw = "spans ! i"
  let ?rec = "SpanRecords req ! i"
  have m: "mapE (encodeSpan g) spans = Inr (SpanRecords req)"
    using Flush_begin_Started(3,6) [OF b] by simp
  have len: "length (SpanRecords req) = length spans"
    using mapE_Inr_nth [OF m] by simp
  have e: "encodeSpan g ?raw = Inr ?rec"
    using mapE_Inr_nth [OF m] i by simp
  note E = encodeSpan_Inr [OF e]
  have ow: "OldestMicros ?rec = sint (word_of_int (Start ?raw) :: 64 word) sdiv 1000"
    by (simp add: E(1) micros_def UnixNano_def)
  have yw: "YoungestMicros ?rec =
      sint (word_of_int (Start ?raw + Duration ?raw) :: 64 word) sdiv 1000"
    by (simp add: E(2) micros_def UnixNano_def Time_Add_def del: of_int_add)
  have o: "- (2 ^ 63) \<le> Start ?raw \<and> Start ?raw < 2 ^ 63 \<longrightarrow>
      OldestMicros ?rec = Start ?raw sdiv 1000"
    by (simp add: E(1) micros_in_range)
  have y: "- (2 ^ 63) \<le> Start ?raw + Duration ?raw \<and> Start ?raw + Duration ?raw < 2 ^ 63 \<longrightarrow>
      YoungestMicros ?rec = (Start ?raw + Duration ?raw) sdiv 1000"
    by (simp add: E(2) micros_in_range Time_Add_def)
  have j1: "JoinIds ?rec \<noteq> []"
    by (simp add: E(3))
  have j2: "last (JoinIds ?rec) = TraceJoinId TraceGUIDKey (Sprint_int64 (TraceID ?raw))"
    by (simp add: E(3))
  have p: "ParentSpanID ?raw \<noteq> 0 \<longrightarrow> Attributes ?rec \<noteq> [] \<and>
      last (Attributes ?rec) = KeyValue ParentSpanGUIDKey (Sprint_int64 (ParentSpanID ?raw))"
    by (simp add: E(4))
  have cnt: "length (filter (\<lambda>a. Key a = ParentSpanGUIDKey)
                 (map (\<lambda>(k, v). KeyValue k (Sprint v))
                    (filter (\<lambda>(k, v). \<not> HasPrefix ''join:'' k) tags)))
           = length (filter (\<lambda>(k, v). k = ParentSpanGUIDKey) tags)" for tags
    using not_HasPrefix_ParentSpanGUIDKey by (induction tags) auto
  have c: "length (filter (\<lambda>a. Key a = ParentSpanGUIDKey) (Attributes ?rec)) =
           length (filter (\<lambda>(k, v). k = ParentSpanGUIDKey) (Tags ?raw))
           + (if ParentSpanID ?raw \<noteq> 0 then 1 else 0)"
    unfolding E(4) filter_append length_append cnt by simp
  have k: "ParentSpanGUIDKey \<notin> fst ` set (Tags ?raw) \<longrightarrow>
      ((\<exists>a \<in> set (Attributes ?rec). Key a = ParentSpanGUIDKey) \<longleftrightarrow> ParentSpanID ?raw \<noteq> 0)"
  proof
    assume nt: "ParentSpanGUIDKey \<notin> fst ` set (Tags ?raw)"
    define ta where "ta = map (\<lambda>(k, v). KeyValue k (Sprint v))
              (filter (\<lambda>(k, v). \<not> HasPrefix ''join:'' k) (Tags ?raw))"
    have A: "Attributes ?rec = ta @ (if ParentSpanID ?raw \<noteq> 0
              then [KeyValue ParentSpanGUIDKey (Sprint_int64 (ParentSpanID ?raw))] else [])"
      unfolding ta_def by (rule E(4))
    have sub: "Key ` set ta \<subseteq> fst ` set (Tags ?raw)"
      unfolding ta_def tag_attribute_keys by blast
    have nk: "\<not> (\<exists>a \<in> set ta. Key a = ParentSpanGUIDKey)"
    proof
      assume "\<exists>a \<in> set ta. Key a = ParentSpanGUIDKey"
      then obtain a where "a \<in> set ta" and "Key a = ParentSpanGUIDKey" by blast
      then have "ParentSpanGUIDKey \<in> Key ` set ta" by (metis imageI)
      then show False using sub nt by (metis subsetD)
    qed
    show "(\<exists>a \<in> set (Attributes ?rec). Key a = ParentSpanGUIDKey) \<longleftrightarrow> ParentSpanID ?raw \<noteq> 0"
    proof (cases "ParentSpanID ?raw = 0")
      case True
      then have "Attributes ?rec = ta" by (simp add: A)
      then show ?thesis using nk True by simp
    next
      case False
      then have "KeyValue ParentSpanGUIDKey (Sprint_int64 (ParentSpanID ?raw)) \<in> set (Attributes ?rec)"
        by (simp add: A)
      then have "\<exists>a \<in> set (Attributes ?rec). Key a = ParentSpanGUIDKey"
        by (metis KeyValue.sel(1))
      then show ?thesis using False by simp
    qed
  qed
  show ?thesis
    by (intro conjI) (rule len ow yw o y j1 j2 p c k)+
qed

text \<open>
  The second span of the example request: span B has the parent 2 and no tag named
  \<^verbatim>\<open>parent_span_guid\<close>.
\<close>

theorem C8_witness:
  "Flush_begin exGlobals (clock exWorld) exRecorder = Inr (Started exStarted exRequest [spanA, spanB]) \<and>
   (1::nat) < length [spanA, spanB] \<and>
   ParentSpanID ([spanA, spanB] ! 1) \<noteq> 0 \<and>
   ParentSpanGUIDKey \<notin> fst ` set (Tags ([spanA, spanB] ! 1)) \<and>
   - (2 ^ 63) \<le> Start ([spanA, spanB] ! 1) \<and> Start ([spanA, spanB] ! 1) < 2 ^ 63 \<and>
   - (2 ^ 63) \<le> Start ([spanA, spanB] ! 1) + Duration ([spanA, spanB] ! 1) \<and>
   Start ([spanA, spanB] ! 1) + Duration ([spanA, spanB] ! 1) < 2 ^ 63 \<and>
   OldestMicros (SpanRecords exRequest ! 1) = 1001 \<and>
   YoungestMicros (SpanRecords exRequest ! 1) = 1002 \<and>
   last (JoinIds (SpanRecords exRequest ! 1)) = TraceJoinId TraceGUIDKey (Sprint_int64 7) \<and>
   last (Attributes (SpanRecords exRequest ! 1)) = KeyValue ParentSpanGUIDKey (Sprint_int64 2) \<and>
   (\<exists>a \<in> set (Attributes (SpanRecords exRequest ! 1)). Key a = ParentSpanGUIDKey)"
proof -
  have i: "(1::nat) < length [spanA, spanB]"
    by simp
  have a: "ParentSpanID ([spanA, spanB] ! 1) \<noteq> 0"
    "ParentSpanGUIDKey \<notin> fst ` set (Tags ([spanA, spanB] ! 1))"
    "TraceID ([spanA, spanB] ! 1) = 7" "ParentSpanID ([spanA, spanB] ! 1) = 2"
    "Start ([spanA, spanB] ! 1) sdiv 1000 = 1001"
    "(Start ([spanA, spanB] ! 1) + Duration ([spanA, spanB] ! 1)) sdiv 1000 = 1002"
    "- (2 ^ 63) \<le> Start ([spanA, spanB] ! 1)" "Start ([spanA, spanB] ! 1) < 2 ^ 63"
    "- (2 ^ 63) \<le> Start ([spanA, spanB] ! 1) + Duration ([spanA, spanB] ! 1)"
    "Start ([spanA, spanB] ! 1) + Duration ([spanA, spanB] ! 1) < 2 ^ 63"
    by (simp_all add: spanB_def ParentSpanGUIDKey_def signed_divide_int_def)
  show ?thesis
    using C8_span_record [OF Flush_begin_ex i] Flush_begin_ex i a by simp
qed

text \<open>
  Claim C9: after a flush whose RPC succeeds, if some command of the response has its
  disable flag set to true, the final state is \<open>Disable\<close> applied to the state the flush
  reaches with no commands: it is disabled and \<open>RecordSpan\<close> leaves it unchanged. If no
  command has the flag set to true, the final state is the one reached with no commands.
\<close>

theorem C9_disable_command:
  assumes b: "Flush_begin g (clock w) r = Inr (Started r1 req spans)"
    and e: "outcome (backend (auth r1) req) = Inr resp"
  shows "\<exists>r' w'. Flush g backend during (r, w) = Inr (r', w') \<and>
           ((\<exists>c \<in> set (Commands resp). cmd_Disable c = Some True) \<longrightarrow>
              r' = Disable (Flush_end (clock w) spans (Inr (resp\<lparr>Commands := []\<rparr>)) (runOps during r1))
              \<and> disabled r' \<and> RecordSpan raw r' = r') \<and>
           ((\<forall>c \<in> set (Commands resp). cmd_Disable c \<noteq> Some True) \<longrightarrow>
              r' = Flush_end (clock w) spans (Inr (resp\<lparr>Commands := []\<rparr>)) (runOps during r1))"
proof -
  let ?r' = "Flush_end (clock w) spans (Inr resp) (runOps during r1)"
  let ?r0 = "Flush_end (clock w) spans (Inr (resp\<lparr>Commands := []\<rparr>)) (runOps during r1)"
  have F: "Flush g backend during (r, w) =
      Inr (?r', w\<lparr>clock := clock w + int (elapsed (backend (auth r1) req)), sent := sent w @ [req]\<rparr>)"
    using Flush_Started [OF b, of backend during] e by simp
  have s: "?r' = foldl runCommand ?r0 (Commands resp)"
    by (simp add: Flush_end_success)
  have d: "?r' = Disable ?r0 \<and> disabled ?r' \<and> RecordSpan raw ?r' = ?r'"
    if "\<exists>c \<in> set (Commands resp). cmd_Disable c = Some True"
  proof -
    have "?r' = Disable ?r0"
      unfolding s by (rule runCommands_disable [OF that])
    moreover have "disabled (Disable ?r0)" by (rule Disable_disabled)
    ultimately show ?thesis
      using RecordSpan_disabled [of "Disable ?r0" raw] by simp
  qed
  have n: "?r' = ?r0" if "\<forall>c \<in> set (Commands resp). cmd_Disable c \<noteq> Some True"
    unfolding s by (rule runCommands_ignored [OF that])
  show ?thesis using F d n by blast
qed

text \<open>
  A response with a disable command set to true, and one with the flag absent or false.
\<close>

theorem C9_witness:
  "Flush_begin exGlobals (clock exWorld) exRecorder = Inr (Started exStarted exRequest [spanA, spanB]) \<and>
   (\<exists>r' w'. Flush exGlobals (replyingBackend [\<lparr>cmd_Disable = None\<rparr>, \<lparr>cmd_Disable = Some True\<rparr>]) []
                (exRecorder, exWorld) = Inr (r', w') \<and>
      disabled r' \<and> RecordSpan spanC r' = r') \<and>
   (\<exists>r' w'. Flush exGlobals (replyingBackend [\<lparr>cmd_Disable = None\<rparr>, \<lparr>cmd_Disable = Some False\<rparr>]) []
                (exRecorder, exWorld) = Inr (r', w') \<and>
      r' = Flush_end (clock exWorld) [spanA, spanB] (Inr \<lparr>Errors = [], Commands = []\<rparr>) exStarted \<and>
      \<not> disabled r')"
proof -
  let ?on = "[\<lparr>cmd_Disable = None\<rparr>, \<lparr>cmd_Disable = Some True\<rparr>]"
  let ?off = "[\<lparr>cmd_Disable = None\<rparr>, \<lparr>cmd_Disable = Some False\<rparr>]"
  have e1: "outcome (replyingBackend ?on (auth exStarted) exRequest) = Inr \<lparr>Errors = [], Commands = ?on\<rparr>"
    by (simp add: replyingBackend_def)
  have e2: "outcome (replyingBackend ?off (auth exStarted) exRequest) = Inr \<lparr>Errors = [], Commands = ?off\<rparr>"
    by (simp add: replyingBackend_def)
  have h1: "\<exists>c \<in> set (Commands \<lparr>Errors = [], Commands = ?on\<rparr>). cmd_Disable c = Some True"
    by simp
  have h2: "\<forall>c \<in> set (Commands \<lparr>Errors = [], Commands = ?off\<rparr>). cmd_Disable c \<noteq> Some True"
    by simp
  have n: "\<not> disabled (Flush_end (clock exWorld) [spanA, spanB] (Inr \<lparr>Errors = [], Commands = []\<rparr>) exStarted)"
    by (simp add: Flush_end_success exStarted_def exRecorder_def)
  show ?thesis
    using Flush_begin_ex n h1 h2
      C9_disable_command [where backend = "replyingBackend ?on" and during = "[]" and raw = spanC,
        OF Flush_begin_ex e1]
      C9_disable_command [where backend = "replyingBackend ?off" and during = "[]" and raw = spanC,
        OF Flush_begin_ex e2]
    by (auto simp: runOps_def)
qed

text \<open>
  Claim C10: the request carries the counters as they were when the flush began; spans
  recorded while the RPC is outstanding can only add to the dropped-spans counter. On
  success the counter set is overwritten with zero, whatever was added meanwhile; on
  failure what was added meanwhile is kept, and the overflow of the reinsertion is added
  to it.
\<close>

theorem C10_counters:
  assumes b: "Flush_begin g (clock w) r = Inr (Started r1 req spans)"
  shows "Counters req = counters r \<and>
         droppedSpans (counters r) \<le> droppedSpans (counters (runOps during r1)) \<and>
         (outcome (backend (auth r1) req) = Inr resp \<longrightarrow>
            (\<exists>r' w'. Flush g backend during (r, w) = Inr (r', w') \<and>
               counters r' = counterSet_zero)) \<and>
         (outcome (backend (auth r1) req) = Inl err \<longrightarrow>
            (\<exists>r' w'. Flush g backend during (r, w) = Inr (r', w') \<and>
               droppedSpans (counters r') =
                 droppedSpans (counters (runOps during r1))
                 + snd (spansBuffer_addSpans (buffer (runOps during r1)) spans) \<and>
               droppedSpans (counters (runOps during r1)) \<le> droppedSpans (counters r')))"
proof -
  have r1: "r1 = r\<lparr>lastReportAttempt := clock w, reportYoungest := clock w,
                   buffer := spansBuffer_reset (buffer r), reportInFlight := True\<rparr>"
    by (rule Flush_begin_Started(4) [OF b])
  have mono1: "droppedSpans (counters x) \<le> droppedSpans (counters (runOp x c))" for x c
  proof (cases c)
    case (DoRecordSpan raw)
    have "droppedSpans (counters (RecordSpan raw x)) =
        (if disabled x then droppedSpans (counters x)
         else droppedSpans (counters x) + snd (spansBuffer_addSpans (buffer x) [raw]))"
      by (simp add: RecordSpan_def addDropped_def split: prod.splits)
    then show ?thesis
      using addSpans_dropped_nonneg [of "buffer x" "[raw]"] DoRecordSpan by simp
  next
    case DoDisable
    then show ?thesis by (simp add: Disable_def)
  qed
  have mono: "droppedSpans (counters x) \<le> droppedSpans (counters (foldl runOp x ops))" for x ops
  proof (induction ops arbitrary: x)
    case Nil
    show ?case by simp
  next
    case (Cons c ops)
    show ?case using mono1 [of x c] Cons [of "runOp x c"] by simp
  qed
  have d: "droppedSpans (counters r) \<le> droppedSpans (counters (runOps during r1))"
    using mono [of r1 during] by (simp add: runOps_def r1)
  have s: "\<exists>r' w'. Flush g backend during (r, w) = Inr (r', w') \<and> counters r' = counterSet_zero"
    if "outcome (backend (auth r1) req) = Inr resp"
    using Flush_Started [OF b, of backend during] that
    by (simp add: Flush_end_success runCommands_fields)
  have f: "\<exists>r' w'. Flush g backend during (r, w) = Inr (r', w') \<and>
               droppedSpans (counters r') =
                 droppedSpans (counters (runOps during r1))
                 + snd (spansBuffer_addSpans (buffer (runOps during r1)) spans) \<and>
               droppedSpans (counters (runOps during r1)) \<le> droppedSpans (counters r')"
    if "outcome (backend (auth r1) req) = Inl err"
    using Flush_Started [OF b, of backend during] that
      addSpans_dropped_nonneg [of "buffer (runOps during r1)" spans]
    by (simp add: Flush_end_error addDropped_def)
  show ?thesis
    using Flush_begin_Started(5) [OF b] d s f by blast
qed

text \<open>
  Three spans recorded while the RPC is outstanding, into a buffer of capacity two: one
  is dropped. After a success the counter is 0; after a failure the two drained spans do
  not fit either, and the counter is 3.
\<close>

theorem C10_witness:
  "Flush_begin exGlobals (clock exWorld) exRecorder = Inr (Started exStarted exRequest [spanA, spanB]) \<and>
   droppedSpans (Counters exRequest) = 0 \<and>
   droppedSpans (counters (runOps [DoRecordSpan spanC, DoRecordSpan spanC, DoRecordSpan spanC] exStarted)) = 1 \<and>
   (\<exists>r' w'. Flush exGlobals (replyingBackend [])
                [DoRecordSpan spanC, DoRecordSpan spanC, DoRecordSpan spanC] (exRecorder, exWorld)
              = Inr (r', w') \<and> droppedSpans (counters r') = 0) \<and>
   (\<exists>r' w'. Flush exGlobals failingBackend
                [DoRecordSpan spanC, DoRecordSpan spanC, DoRecordSpan spanC] (exRecorder, exWorld)
              = Inr (r', w') \<and> droppedSpans (counters r') = 3)"
proof -
  let ?ops = "[DoRecordSpan spanC, DoRecordSpan spanC, DoRecordSpan spanC]"
  have e1: "outcome (replyingBackend [] (auth exStarted) exRequest) = Inr \<lparr>Errors = [], Commands = []\<rparr>"
    by (simp add: replyingBackend_def)
  have e2: "outcome (failingBackend (auth exStarted) exRequest) = Inl ''connection refused''"
    by (simp add: failingBackend_def)
  have d: "droppedSpans (counters (runOps ?ops exStarted)) = 1"
    "snd (spansBuffer_addSpans (buffer (runOps ?ops exStarted)) [spanA, spanB]) = 2"
    by (simp_all add: runOps_ex spansBuffer_addSpans_def spansBuffer_cap_def spansBuffer_len_def)
  have c: "droppedSpans (Counters exRequest) = 0"
    by (simp add: exRequest_def)
  show ?thesis
    using Flush_begin_ex c d e1 e2
      C10_counters [where backend = "replyingBackend []" and during = ?ops
        and resp = "\<lparr>Errors = [], Commands = []\<rparr>", OF Flush_begin_ex]
      C10_counters [where backend = failingBackend and during = ?ops
        and err = "''connection refused''", OF Flush_begin_ex]
    by (auto simp: counterSet_zero_def)
qed

end
